theory Spec2Isabelle
  imports Complex_Main
begin

section \<open>JavaScript numbers and numeric strings\<close>

text \<open>
  A JavaScript number is modelled as a rational, NaN or one of the two infinities: sums
  and quotients are exact, so the rounding and the overflow of doubles and the sign of
  zero are outside the model.
\<close>

datatype jsnum = Fin rat | PInf | NInf | NaN

fun num_add :: "jsnum \<Rightarrow> jsnum \<Rightarrow> jsnum" where
  "num_add NaN y = NaN"
| "num_add x NaN = NaN"
| "num_add (Fin a) (Fin b) = Fin (a + b)"
| "num_add PInf NInf = NaN"
| "num_add NInf PInf = NaN"
| "num_add PInf y = PInf"
| "num_add NInf y = NInf"
| "num_add (Fin a) y = y"

text \<open>Division by a count or a length, which is a non-negative integer.\<close>

fun num_div :: "jsnum \<Rightarrow> nat \<Rightarrow> jsnum" where
  "num_div NaN n = NaN"
| "num_div PInf n = PInf"
| "num_div NInf n = NInf"
| "num_div (Fin a) n =
     (if n = 0 then (if a = 0 then NaN else if 0 < a then PInf else NInf)
      else Fin (a / of_nat n))"

fun num_max :: "jsnum \<Rightarrow> jsnum \<Rightarrow> jsnum" where
  "num_max NaN y = NaN"
| "num_max x NaN = NaN"
| "num_max PInf y = PInf"
| "num_max x PInf = PInf"
| "num_max NInf y = y"
| "num_max x NInf = x"
| "num_max (Fin a) (Fin b) = Fin (max a b)"

text \<open>The sum of a list of numbers, added from the left starting at 0.\<close>

definition sum_num :: "jsnum list \<Rightarrow> jsnum" where
  "sum_num xs = foldl num_add (Fin 0) xs"

text \<open>\<^verbatim>\<open>Math.max(...xs)\<close>: NaN when an argument is NaN, \<^verbatim>\<open>-Infinity\<close> without arguments.\<close>

definition Math_max :: "jsnum list \<Rightarrow> jsnum" where
  "Math_max xs = foldl num_max NInf xs"

text \<open>
  \<^verbatim>\<open>parseFloat\<close> of a string: leading white space is skipped and the longest prefix that
  is a decimal literal (sign, \<^verbatim>\<open>Infinity\<close> or digits with an optional fraction, optional
  exponent) gives the value; NaN when there is no such prefix. Strings are byte strings
  here, so the white space is the ASCII white space.
\<close>

definition is_space :: "char \<Rightarrow> bool" where
  "is_space c = (c \<in> set [CHR '' '', CHR 0x09, CHR 0x0A, CHR 0x0B, CHR 0x0C, CHR 0x0D])"

definition is_digit :: "char \<Rightarrow> bool" where
  "is_digit c = (c \<in> set ''0123456789'')"

definition digits_value :: "string \<Rightarrow> nat" where
  "digits_value ds = foldl (\<lambda>n c. 10 * n + (of_char c - 48)) 0 ds"

definition exponent_part :: "string \<Rightarrow> int" where
  "exponent_part s =
     (case s of
        [] \<Rightarrow> 0
      | c # r \<Rightarrow>
          if c = CHR ''e'' \<or> c = CHR ''E'' then
            (let neg = (case r of [] \<Rightarrow> False | d # r' \<Rightarrow> d = CHR ''-'');
                 r1 = (case r of [] \<Rightarrow> [] | d # r' \<Rightarrow> if d = CHR ''-'' \<or> d = CHR ''+'' then r' else r);
                 ds = takeWhile is_digit r1
             in if ds = [] then 0
                else if neg then - int (digits_value ds) else int (digits_value ds))
          else 0)"

definition parseFloat_string :: "string \<Rightarrow> jsnum" where
  "parseFloat_string s =
     (let t = dropWhile is_space s;
          neg = (case t of [] \<Rightarrow> False | c # r \<Rightarrow> c = CHR ''-'');
          u = (case t of [] \<Rightarrow> [] | c # r \<Rightarrow> if c = CHR ''-'' \<or> c = CHR ''+'' then r else t)
      in if take 8 u = ''Infinity'' then (if neg then NInf else PInf)
         else
           (let ip = takeWhile is_digit u;
                r1 = dropWhile is_digit u;
                dot = (case r1 of [] \<Rightarrow> False | c # r \<Rightarrow> c = CHR ''.'');
                fp = (if dot then takeWhile is_digit (tl r1) else []);
                r2 = (if dot then dropWhile is_digit (tl r1) else r1)
            in if ip = [] \<and> fp = [] then NaN
               else
                 (let mant = (of_nat (digits_value (ip @ fp)) :: rat) / 10 ^ length fp;
                      ex = exponent_part r2;
                      v = (if 0 \<le> ex then mant * 10 ^ nat ex else mant / 10 ^ nat (- ex))
                  in Fin (if neg then - v else v))))"

text \<open>
  The conversion of a string to a number that the operators apply (\<^verbatim>\<open>Number(s)\<close>):
  white space is trimmed at both ends, the empty string is 0, and the whole rest must be
  a decimal literal or an unsigned hexadecimal, octal or binary integer literal; NaN
  otherwise.
\<close>

definition trim :: "string \<Rightarrow> string" where
  "trim s = rev (dropWhile is_space (rev (dropWhile is_space s)))"

definition radix_digit :: "char \<Rightarrow> nat" where
  "radix_digit c =
     (if c \<in> set ''0123456789'' then of_char c - 48
      else if c \<in> set ''abcdef'' then of_char c - 87
      else if c \<in> set ''ABCDEF'' then of_char c - 55
      else 16)"

definition radix_literal :: "nat \<Rightarrow> string \<Rightarrow> jsnum" where
  "radix_literal b ds =
     (if ds \<noteq> [] \<and> list_all (\<lambda>c. radix_digit c < b) ds
      then Fin (of_nat (foldl (\<lambda>n c. b * n + radix_digit c) 0 ds))
      else NaN)"

definition decimal_literal :: "string \<Rightarrow> jsnum" where
  "decimal_literal t =
     (let neg = (case t of [] \<Rightarrow> False | c # r \<Rightarrow> c = CHR ''-'');
          u = (case t of [] \<Rightarrow> [] | c # r \<Rightarrow> if c = CHR ''-'' \<or> c = CHR ''+'' then r else t)
      in if u = ''Infinity'' then (if neg then NInf else PInf)
         else
           (let ip = takeWhile is_digit u;
                r1 = dropWhile is_digit u;
                dot = (case r1 of [] \<Rightarrow> False | c # r \<Rightarrow> c = CHR ''.'');
                fp = (if dot then takeWhile is_digit (tl r1) else []);
                r2 = (if dot then dropWhile is_digit (tl r1) else r1);
                ed = (case r2 of
                        [] \<Rightarrow> []
                      | c # r \<Rightarrow>
                          (case r of
                             [] \<Rightarrow> []
                           | d # r' \<Rightarrow> if d = CHR ''-'' \<or> d = CHR ''+'' then r' else r));
                complete =
                  (r2 = [] \<or>
                   ((hd r2 = CHR ''e'' \<or> hd r2 = CHR ''E'') \<and> ed \<noteq> [] \<and> list_all is_digit ed))
            in if (ip = [] \<and> fp = []) \<or> \<not> complete then NaN
               else
                 (let mant = (of_nat (digits_value (ip @ fp)) :: rat) / 10 ^ length fp;
                      ex = exponent_part r2;
                      v = (if 0 \<le> ex then mant * 10 ^ nat ex else mant / 10 ^ nat (- ex))
                  in Fin (if neg then - v else v))))"

definition string_to_number :: "string \<Rightarrow> jsnum" where
  "string_to_number s =
     (let t = trim s
      in if t = [] then Fin 0
         else if take 2 t = ''0x'' \<or> take 2 t = ''0X'' then radix_literal 16 (drop 2 t)
         else if take 2 t = ''0o'' \<or> take 2 t = ''0O'' then radix_literal 8 (drop 2 t)
         else if take 2 t = ''0b'' \<or> take 2 t = ''0B'' then radix_literal 2 (drop 2 t)
         else decimal_literal t)"

section \<open>The WebSocket store (services/websocket)\<close>

text \<open>
  The store created by \<^verbatim>\<open>create((set, get) => ({...}))\<close> holds the socket handle, the
  \<^verbatim>\<open>connected\<close> flag, three buffers and the subscription set. Its methods and the
  handlers that \<^verbatim>\<open>connect\<close> attaches to a socket are modelled as functions on a record
  that holds the store's fields together with the part of the browser they act on: the
  sockets created so far with their \<^verbatim>\<open>readyState\<close>, the requests handed to
  \<^verbatim>\<open>ws.send\<close>, the callbacks pending in \<^verbatim>\<open>setTimeout\<close> and the toasts shown.

  Values that arrive over the wire are JSON values. A JSON number is modelled as a
  rational: rounding to IEEE doubles, signed zero and the infinities are outside the
  model. \<open>JUndefined\<close> is what reading an absent property gives. An object is the
  list of its own properties; a name is looked up from the front of the list.
\<close>

datatype jsval =
    JUndefined
  | JNull
  | JBool bool
  | JNum rat
  | JStr string
  | JArr "jsval list"
  | JObj "(string \<times> jsval) list"

datatype error = TypeError | SyntaxError

text \<open>
  Property read \<^verbatim>\<open>v.k\<close>: a TypeError on \<^verbatim>\<open>undefined\<close> and \<^verbatim>\<open>null\<close>, the own
  property of an object, and \<^verbatim>\<open>undefined\<close> otherwise (none of the property names the
  store reads is inherited by a number, a string, a boolean or an array).
\<close>

fun getprop :: "jsval \<Rightarrow> string \<Rightarrow> error + jsval" where
  "getprop JUndefined k = Inl TypeError"
| "getprop JNull k = Inl TypeError"
| "getprop (JObj kvs) k = Inr (case map_of kvs k of None \<Rightarrow> JUndefined | Some v \<Rightarrow> v)"
| "getprop v k = Inr JUndefined"

datatype readyState = CONNECTING | OPEN | CLOSING | CLOSED

datatype request = Subscribe "string list" | Unsubscribe "string list" | Ping

datatype toast =
    Toast_connected
  | Toast_disconnected
  | Toast_error
  | Toast_arbitrage jsval rat

record world =
  ws :: "nat option"
  connected :: bool
  priceUpdates :: "jsval list"
  arbitrageAlerts :: "jsval list"
  yieldUpdates :: "jsval list"
  subscriptions :: "string list"
  sockets :: "readyState list"
  sent :: "(nat \<times> request) list"
  timers :: "nat list"
  toasts :: "toast list"

text \<open>
  \<open>ws\<close> is the index into \<open>sockets\<close> of the socket the store holds (\<open>None\<close> for
  \<^verbatim>\<open>null\<close>). \<open>subscriptions\<close> is the JavaScript \<^verbatim>\<open>Set\<close> in insertion order.
  \<open>sent\<close> lists, oldest first, each request with the socket it was sent on. Every
  callback the store passes to \<^verbatim>\<open>setTimeout\<close> is the reconnect callback, so a pending
  timer is its delay in milliseconds.
\<close>

definition initial :: world where
  "initial = \<lparr> ws = None, connected = False, priceUpdates = [], arbitrageAlerts = [],
               yieldUpdates = [], subscriptions = [], sockets = [], sent = [],
               timers = [], toasts = [] \<rparr>"

subsection \<open>Conversions of a JSON value\<close>

text \<open>
  Converting a value to a string, as a template literal does, fails with a TypeError
  exactly for an object with an own property \<^verbatim>\<open>toString\<close> (a JSON value is never
  callable, and the inherited \<^verbatim>\<open>valueOf\<close> returns the object itself) and for an array
  that holds such a value (\<^verbatim>\<open>join\<close> converts every element but \<^verbatim>\<open>null\<close>). An object
  without it prints as \<^verbatim>\<open>[object Object]\<close>.
\<close>

fun printable :: "jsval \<Rightarrow> bool" where
  "printable (JObj kvs) = (map_of kvs ''toString'' = None)"
| "printable (JArr xs) = (\<forall>x \<in> set xs. x = JNull \<or> printable x)"
| "printable v = True"

text \<open>
  Converting a value to a number, as the comparison operators do. An object or array is
  converted to a string first: \<^verbatim>\<open>[object Object]\<close> is not numeric, an array prints as
  its elements joined by commas (\<^verbatim>\<open>null\<close> as the empty string), so an empty array
  gives 0, an array of one element what the string of that element gives, and a longer
  array NaN.
\<close>

fun to_number :: "jsval \<Rightarrow> error + jsnum" where
  "to_number JUndefined = Inr NaN"
| "to_number JNull = Inr (Fin 0)"
| "to_number (JBool b) = Inr (Fin (if b then 1 else 0))"
| "to_number (JNum r) = Inr (Fin r)"
| "to_number (JStr s) = Inr (string_to_number s)"
| "to_number (JObj kvs) = (if printable (JObj kvs) then Inr NaN else Inl TypeError)"
| "to_number (JArr []) = Inr (Fin 0)"
| "to_number (JArr [JNull]) = Inr (Fin 0)"
| "to_number (JArr [JUndefined]) = Inr (Fin 0)"
| "to_number (JArr [JBool b]) = Inr NaN"
| "to_number (JArr [x]) = to_number x"
| "to_number (JArr (x # y # zs)) =
     (if printable (JArr (x # y # zs)) then Inr NaN else Inl TypeError)"

text \<open>\<^verbatim>\<open>v > c\<close> for a number \<open>c\<close>: false when \<open>v\<close> converts to NaN.\<close>

definition greater_than :: "jsval \<Rightarrow> rat \<Rightarrow> error + bool" where
  "greater_than v c =
     (case to_number v of
        Inl e \<Rightarrow> Inl e
      | Inr n \<Rightarrow> Inr (case n of Fin a \<Rightarrow> c < a | PInf \<Rightarrow> True | NInf \<Rightarrow> False | NaN \<Rightarrow> False))"

text \<open>
  \<^verbatim>\<open>v.toFixed(2)\<close>: only a number has the method; on any other value the call is a
  TypeError. The result stands for the string of the number with two decimals.
\<close>

fun toFixed :: "jsval \<Rightarrow> error + rat" where
  "toFixed (JNum p) = Inr p"
| "toFixed v = Inl TypeError"

subsection \<open>Message handler\<close>

text \<open>
  \<^verbatim>\<open>ws.onmessage\<close>. The argument is what \<^verbatim>\<open>JSON.parse(event.data)\<close> returns, \<open>None\<close>
  when it throws. The whole body is inside \<^verbatim>\<open>try\<close>/\<^verbatim>\<open>catch\<close>: an exception ends the
  handler and keeps the updates made before it.

  In the \<^verbatim>\<open>arbitrage_alert\<close> case the buffer is updated first. Then, when
  \<^verbatim>\<open>data.data.profit_percent > 2.0\<close>, the text of the toast is built from
  \<^verbatim>\<open>data.data.token_symbol\<close> and \<^verbatim>\<open>data.data.profit_percent.toFixed(2)\<close> and the toast
  is shown; a TypeError on the way (reading a property of \<^verbatim>\<open>undefined\<close> or \<^verbatim>\<open>null\<close>,
  a conversion that fails, a missing \<^verbatim>\<open>toFixed\<close>) is caught, and no toast is shown.
  \<open>Toast_arbitrage s p\<close> is the toast for the token symbol \<open>s\<close> and the profit \<open>p\<close>.
\<close>

definition high_profit_toast :: "jsval \<Rightarrow> toast list" where
  "high_profit_toast d =
     (case getprop d ''profit_percent'' of
        Inl e \<Rightarrow> []
      | Inr v \<Rightarrow>
          (case greater_than v 2 of
             Inl e \<Rightarrow> []
           | Inr False \<Rightarrow> []
           | Inr True \<Rightarrow>
               (case getprop d ''token_symbol'' of
                  Inl e \<Rightarrow> []
                | Inr s \<Rightarrow>
                    if printable s
                    then (case toFixed v of Inl e \<Rightarrow> [] | Inr p \<Rightarrow> [Toast_arbitrage s p])
                    else [])))"

text \<open>
  \<^verbatim>\<open>data.data\<close> and \<^verbatim>\<open>data.type\<close> of a parsed frame. The handler reads \<^verbatim>\<open>data.type\<close>
  first, so \<^verbatim>\<open>data.data\<close> is only read of a value that has properties.
\<close>

definition payload_of :: "jsval \<Rightarrow> jsval" where
  "payload_of data = (case getprop data ''data'' of Inr d \<Rightarrow> d | Inl e \<Rightarrow> JUndefined)"

definition onmessage :: "jsval option \<Rightarrow> world \<Rightarrow> world" where
  "onmessage parsed w =
     (case parsed of
        None \<Rightarrow> w
      | Some data \<Rightarrow>
          (case getprop data ''type'' of
             Inl e \<Rightarrow> w
           | Inr t \<Rightarrow>
                if t = JStr ''connected'' then w
                else if t = JStr ''price_update'' then
                  w\<lparr>priceUpdates := take 100 (payload_of data # priceUpdates w)\<rparr>
                else if t = JStr ''arbitrage_alert'' then
                  w\<lparr>arbitrageAlerts := take 50 (payload_of data # arbitrageAlerts w),
                    toasts := toasts w @ high_profit_toast (payload_of data)\<rparr>
                else if t = JStr ''yield_update'' then
                  w\<lparr>yieldUpdates := take 50 (payload_of data # yieldUpdates w)\<rparr>
                else if t = JStr ''subscribed'' then w
                else if t = JStr ''pong'' then w
                else w))"

text \<open>A sequence of message events, handled in order of arrival.\<close>

fun onmessages :: "jsval option list \<Rightarrow> world \<Rightarrow> world" where
  "onmessages [] w = w"
| "onmessages (m # ms) w = onmessages ms (onmessage m w)"

text \<open>
  The type a frame declares: none when the frame does not parse or \<^verbatim>\<open>data.type\<close>
  throws. \<open>inserted ty ms\<close> lists, in order of arrival, the payloads of the frames of
  \<open>ms\<close> that declare the type \<open>ty\<close>.
\<close>

definition declared_type :: "jsval option \<Rightarrow> jsval option" where
  "declared_type parsed =
     (case parsed of
        None \<Rightarrow> None
      | Some data \<Rightarrow> (case getprop data ''type'' of Inl e \<Rightarrow> None | Inr t \<Rightarrow> Some t))"

definition payload :: "jsval option \<Rightarrow> jsval" where
  "payload parsed = (case parsed of None \<Rightarrow> JUndefined | Some data \<Rightarrow> payload_of data)"

definition inserted :: "string \<Rightarrow> jsval option list \<Rightarrow> jsval list" where
  "inserted ty ms = map payload (filter (\<lambda>m. declared_type m = Some (JStr ty)) ms)"

subsection \<open>Connection handlers and store methods\<close>

text \<open>
  \<^verbatim>\<open>ws.send\<close> transmits on an open socket. The store only calls it on an open socket: in
  \<^verbatim>\<open>onopen\<close>, and behind the test \<^verbatim>\<open>ws.readyState === WebSocket.OPEN\<close>.
  \<^verbatim>\<open>ws.close()\<close> starts the closing handshake; the browser delivers the close event
  later.
\<close>

definition socket_open :: "world \<Rightarrow> nat \<Rightarrow> bool" where
  "socket_open w i = (i < length (sockets w) \<and> sockets w ! i = OPEN)"

definition ws_send :: "nat \<Rightarrow> request \<Rightarrow> world \<Rightarrow> world" where
  "ws_send i r w = (if socket_open w i then w\<lparr>sent := sent w @ [(i, r)]\<rparr> else w)"

definition ws_close :: "nat \<Rightarrow> world \<Rightarrow> world" where
  "ws_close i w =
     (if i < length (sockets w) \<and> (sockets w ! i = CONNECTING \<or> sockets w ! i = OPEN)
      then w\<lparr>sockets := (sockets w)[i := CLOSING]\<rparr> else w)"

text \<open>\<^verbatim>\<open>new Set(xs)\<close>: the elements of \<open>xs\<close> in order of first occurrence.\<close>

definition new_Set :: "string list \<Rightarrow> string list" where
  "new_Set xs = foldl (\<lambda>s c. if c \<in> set s then s else s @ [c]) [] xs"

definition connect :: "world \<Rightarrow> world" where
  "connect w = w\<lparr>sockets := sockets w @ [CONNECTING], ws := Some (length (sockets w))\<rparr>"

definition onopen :: "nat \<Rightarrow> world \<Rightarrow> world" where
  "onopen i w =
     (let w1 = w\<lparr>connected := True, ws := Some i, toasts := toasts w @ [Toast_connected]\<rparr>
      in if length (subscriptions w1) > 0
         then ws_send i (Subscribe (subscriptions w1)) w1
         else w1)"

definition onclose :: "world \<Rightarrow> world" where
  "onclose w =
     w\<lparr>connected := False, ws := None, toasts := toasts w @ [Toast_disconnected],
       timers := timers w @ [5000]\<rparr>"

definition onerror :: "world \<Rightarrow> world" where
  "onerror w = w\<lparr>toasts := toasts w @ [Toast_error]\<rparr>"

definition disconnect :: "world \<Rightarrow> world" where
  "disconnect w =
     (case ws w of
        None \<Rightarrow> w
      | Some i \<Rightarrow> (ws_close i w)\<lparr>ws := None, connected := False\<rparr>)"

definition subscribe :: "string list \<Rightarrow> world \<Rightarrow> world" where
  "subscribe channels w =
     (case ws w of
        None \<Rightarrow> w
      | Some i \<Rightarrow>
          if socket_open w i
          then (ws_send i (Subscribe channels) w)
                 \<lparr>subscriptions := new_Set (subscriptions w @ channels)\<rparr>
          else w)"

definition unsubscribe :: "string list \<Rightarrow> world \<Rightarrow> world" where
  "unsubscribe channels w =
     (case ws w of
        None \<Rightarrow> w
      | Some i \<Rightarrow>
          if socket_open w i
          then (ws_send i (Unsubscribe channels) w)
                 \<lparr>subscriptions := foldl (\<lambda>s ch. removeAll ch s) (new_Set (subscriptions w)) channels\<rparr>
          else w)"

definition sendPing :: "world \<Rightarrow> world" where
  "sendPing w =
     (case ws w of
        None \<Rightarrow> w
      | Some i \<Rightarrow> if socket_open w i then ws_send i Ping w else w)"

text \<open>The \<^verbatim>\<open>setInterval\<close> callback at the end of the module.\<close>

definition heartbeat :: "world \<Rightarrow> world" where
  "heartbeat w = (if connected w then sendPing w else w)"

subsection \<open>Events\<close>

text \<open>
  What can happen to the store: a call of one of its methods, or the browser delivering
  an event of a socket or running a pending timer. The browser delivers the open event
  of a connecting socket once, after setting its \<^verbatim>\<open>readyState\<close> to \<^verbatim>\<open>OPEN\<close>; the close
  event of a socket once, after setting it to \<^verbatim>\<open>CLOSED\<close>; messages of a socket that is
  not closed. A timer that runs calls \<^verbatim>\<open>get().connect()\<close> and is no longer pending.
\<close>

datatype event =
    Call_connect
  | Call_disconnect
  | Call_subscribe "string list"
  | Call_unsubscribe "string list"
  | Interval
  | Open_event nat
  | Close_event nat
  | Error_event nat
  | Message_event nat "jsval option"
  | Timer_event nat

definition step :: "event \<Rightarrow> world \<Rightarrow> world" where
  "step ev w =
     (case ev of
        Call_connect \<Rightarrow> connect w
      | Call_disconnect \<Rightarrow> disconnect w
      | Call_subscribe channels \<Rightarrow> subscribe channels w
      | Call_unsubscribe channels \<Rightarrow> unsubscribe channels w
      | Interval \<Rightarrow> heartbeat w
      | Open_event i \<Rightarrow>
          if i < length (sockets w) \<and> sockets w ! i = CONNECTING
          then onopen i (w\<lparr>sockets := (sockets w)[i := OPEN]\<rparr>) else w
      | Close_event i \<Rightarrow>
          if i < length (sockets w) \<and> sockets w ! i \<noteq> CLOSED
          then onclose (w\<lparr>sockets := (sockets w)[i := CLOSED]\<rparr>) else w
      | Error_event i \<Rightarrow> if i < length (sockets w) then onerror w else w
      | Message_event i m \<Rightarrow>
          if i < length (sockets w) \<and> sockets w ! i \<noteq> CLOSED \<and> sockets w ! i \<noteq> CONNECTING
          then onmessage m w else w
      | Timer_event k \<Rightarrow>
          if k < length (timers w)
          then connect (w\<lparr>timers := take k (timers w) @ drop (Suc k) (timers w)\<rparr>) else w)"

fun run :: "event list \<Rightarrow> world \<Rightarrow> world" where
  "run [] w = w"
| "run (ev # evs) w = run evs (step ev w)"

section \<open>Merging stream alerts with polled opportunities\<close>

text \<open>
  The \<^verbatim>\<open>opportunities\<close> memo of the \<^verbatim>\<open>useArbitrage\<close> hook and the \<^verbatim>\<open>allOpportunities\<close>
  memo of \<^verbatim>\<open>ArbitragePanel\<close> merge the arbitrage buffer with the result of the polling
  query.

  An opportunity is an object with the fields \<^verbatim>\<open>opportunity_id\<close> and \<^verbatim>\<open>profit_percent\<close>;
  its other fields are the extension of the record. Identities are values of a type on
  which \<^verbatim>\<open>===\<close> is equality (strings, numbers other than NaN; a missing identity can
  be modelled by \<open>None\<close> of an option type, as \<^verbatim>\<open>undefined === undefined\<close> holds).
  \<^verbatim>\<open>profit_percent\<close> is a finite number, modelled as a rational: with NaN the comparator
  is inconsistent and the order \<^verbatim>\<open>Array.prototype.sort\<close> produces is left to the
  implementation.

  An element of the buffer is a string or an object. A string is given by what
  \<^verbatim>\<open>JSON.parse\<close> makes of it: \<open>Text None\<close> when \<^verbatim>\<open>JSON.parse\<close> throws, \<open>Text (Some r)\<close>
  when it returns the object \<open>r\<close>.
\<close>

record 'id opp =
  opportunity_id :: 'id
  profit_percent :: rat

datatype 'r alert = Text "'r option" | Object 'r

text \<open>
  \<^verbatim>\<open>merged.reduce((acc, opp) => { if (!acc.find(o => o.opportunity_id ===
  opp.opportunity_id)) acc.push(opp); return acc; }, [])\<close>
\<close>

definition unique_reduce :: "('id, 'a) opp_scheme list \<Rightarrow> ('id, 'a) opp_scheme list" where
  "unique_reduce merged =
     foldl (\<lambda>acc opp.
              if find (\<lambda>a. opportunity_id a = opportunity_id opp) acc = None
              then acc @ [opp] else acc)
       [] merged"

text \<open>
  \<^verbatim>\<open>xs.sort(cmp)\<close> is a stable sort: for a consistent comparator the result is the one
  arrangement of \<open>xs\<close> in which \<open>a\<close> precedes \<open>b\<close> whenever \<open>cmp a b < 0\<close>, and
  elements that compare equal keep their order. Insertion from the right computes it.
\<close>

fun insert_sorted :: "('a \<Rightarrow> 'a \<Rightarrow> rat) \<Rightarrow> 'a \<Rightarrow> 'a list \<Rightarrow> 'a list" where
  "insert_sorted cmp x [] = [x]"
| "insert_sorted cmp x (y # ys) =
     (if cmp x y \<le> 0 then x # y # ys else y # insert_sorted cmp x ys)"

definition array_sort :: "('a \<Rightarrow> 'a \<Rightarrow> rat) \<Rightarrow> 'a list \<Rightarrow> 'a list" where
  "array_sort cmp xs = foldr (insert_sorted cmp) xs []"

text \<open>The comparator \<^verbatim>\<open>(a, b) => b.profit_percent - a.profit_percent\<close>.\<close>

definition by_profit :: "('id, 'a) opp_scheme \<Rightarrow> ('id, 'a) opp_scheme \<Rightarrow> rat" where
  "by_profit a b = profit_percent b - profit_percent a"

text \<open>\<^verbatim>\<open>data || []\<close>: the query result is \<^verbatim>\<open>undefined\<close> until the first response.\<close>

definition apiOpps :: "'r list option \<Rightarrow> 'r list" where
  "apiOpps data = (case data of None \<Rightarrow> [] | Some d \<Rightarrow> d)"

text \<open>
  The hook decodes inside \<^verbatim>\<open>try\<close>/\<^verbatim>\<open>catch\<close>, returns \<^verbatim>\<open>null\<close> for a string that does
  not parse, and drops the nulls with \<^verbatim>\<open>filter(Boolean)\<close>.
\<close>

definition wsOpps :: "'r alert list \<Rightarrow> 'r list" where
  "wsOpps wsAlerts =
     List.map_filter (\<lambda>alert. case alert of Text parsed \<Rightarrow> parsed | Object r \<Rightarrow> Some r) wsAlerts"

definition opportunities ::
  "('id, 'a) opp_scheme alert list \<Rightarrow> ('id, 'a) opp_scheme list option \<Rightarrow> ('id, 'a) opp_scheme list"
where
  "opportunities wsAlerts data =
     (let merged = wsOpps wsAlerts @ apiOpps data;
          unique = unique_reduce merged
      in array_sort by_profit unique)"

text \<open>
  The panel decodes without \<^verbatim>\<open>try\<close>/\<^verbatim>\<open>catch\<close> and without the filter: the first string
  that does not parse ends the memo with the SyntaxError of \<^verbatim>\<open>JSON.parse\<close>.
\<close>

fun panel_wsOpps :: "'r alert list \<Rightarrow> error + 'r list" where
  "panel_wsOpps [] = Inr []"
| "panel_wsOpps (Text None # alerts) = Inl SyntaxError"
| "panel_wsOpps (Text (Some r) # alerts) =
     (case panel_wsOpps alerts of Inl e \<Rightarrow> Inl e | Inr rs \<Rightarrow> Inr (r # rs))"
| "panel_wsOpps (Object r # alerts) =
     (case panel_wsOpps alerts of Inl e \<Rightarrow> Inl e | Inr rs \<Rightarrow> Inr (r # rs))"

definition allOpportunities ::
  "('id, 'a) opp_scheme alert list \<Rightarrow> ('id, 'a) opp_scheme list option
     \<Rightarrow> error + ('id, 'a) opp_scheme list"
where
  "allOpportunities wsAlerts data =
     (case panel_wsOpps wsAlerts of
        Inl e \<Rightarrow> Inl e
      | Inr ws_opps \<Rightarrow>
          (let merged = ws_opps @ apiOpps data;
               unique = unique_reduce merged
           in Inr (array_sort by_profit unique)))"

text \<open>
  The reconciliation as the specification words it: concatenate the stream records
  before the polled records; iterate in order and keep an element only if its identity
  has not been seen yet; sort descending by the ranking field with a stable sort.
\<close>

fun keep_unseen :: "'id list \<Rightarrow> ('id, 'a) opp_scheme list \<Rightarrow> ('id, 'a) opp_scheme list" where
  "keep_unseen seen [] = []"
| "keep_unseen seen (r # rs) =
     (if opportunity_id r \<in> set seen then keep_unseen seen rs
      else r # keep_unseen (opportunity_id r # seen) rs)"

definition reconcile_spec ::
  "('id, 'a) opp_scheme list \<Rightarrow> ('id, 'a) opp_scheme list \<Rightarrow> ('id, 'a) opp_scheme list"
where
  "reconcile_spec stream polled =
     sort_key (\<lambda>r. - profit_percent r) (keep_unseen [] (stream @ polled))"

section \<open>Yield statistics (hooks/useYieldData)\<close>

text \<open>The \<^verbatim>\<open>stats\<close> memo of the \<^verbatim>\<open>useYieldData\<close> hook.\<close>

text \<open>
  A numeric field of a record arrives as a number or as a string. \<^verbatim>\<open>parseFloat\<close>
  converts its argument to a string first, which for a number gives the number back.
\<close>

datatype field = Number jsnum | String string

fun parseFloat :: "field \<Rightarrow> jsnum" where
  "parseFloat (Number n) = n"
| "parseFloat (String s) = parseFloat_string s"

text \<open>
  A yield opportunity as the memo reads it: \<^verbatim>\<open>protocol_name\<close> and \<^verbatim>\<open>chain\<close> are strings,
  \<^verbatim>\<open>tvl\<close> is passed through \<^verbatim>\<open>parseFloat\<close>, \<^verbatim>\<open>apy\<close> is used as a number. The field
  \<^verbatim>\<open>chain\<close> is called \<open>chain_name\<close> here.
\<close>

record yield_opp =
  protocol_name :: string
  chain_name :: string
  tvl :: field
  apy :: jsnum

record rollup =
  count :: nat
  totalTvl :: jsnum
  avgApy :: jsnum

text \<open>
  \<^verbatim>\<open>byProtocol\<close> and \<^verbatim>\<open>byChain\<close> are objects created by \<^verbatim>\<open>{}\<close> and used as
  dictionaries. Such an object is modelled by the map from its own property names to
  their values; the order of its keys is not represented. Reading \<^verbatim>\<open>byProtocol[k]\<close>
  also finds what every object inherits from \<^verbatim>\<open>Object.prototype\<close>: for the names below
  the value read is a function (for \<^verbatim>\<open>__proto__\<close> the prototype itself), which is truthy.
\<close>

definition Object_prototype_names :: "string list" where
  "Object_prototype_names =
     [''constructor'', ''hasOwnProperty'', ''isPrototypeOf'', ''propertyIsEnumerable'',
      ''toLocaleString'', ''toString'', ''valueOf'', ''__proto__'',
      ''__defineGetter__'', ''__defineSetter__'', ''__lookupGetter__'', ''__lookupSetter__'']"

text \<open>
  One pass of the \<^verbatim>\<open>forEach\<close> body over one of the two objects. When the key names an
  inherited property, the test \<^verbatim>\<open>!byProtocol[key]\<close> fails, no entry is created, and the
  three updates go to the inherited object, which is not part of the result. Otherwise
  the entry is created when it is absent, \<^verbatim>\<open>count\<close> is incremented and \<^verbatim>\<open>totalTvl\<close> and
  \<^verbatim>\<open>avgApy\<close> are added to.
\<close>

definition rollup_step ::
  "(yield_opp \<Rightarrow> string) \<Rightarrow> (string \<rightharpoonup> rollup) \<Rightarrow> yield_opp \<Rightarrow> (string \<rightharpoonup> rollup)"
where
  "rollup_step key groups opp =
     (if key opp \<in> set Object_prototype_names then groups
      else
        (let groups1 =
               (if groups (key opp) = None
                then groups(key opp \<mapsto> \<lparr>count = 0, totalTvl = Fin 0, avgApy = Fin 0\<rparr>)
                else groups)
         in case groups1 (key opp) of
              None \<Rightarrow> groups1
            | Some g \<Rightarrow>
                groups1(key opp \<mapsto>
                  g\<lparr>count := count g + 1,
                    totalTvl := num_add (totalTvl g) (parseFloat (tvl opp)),
                    avgApy := num_add (avgApy g) (apy opp)\<rparr>)))"

text \<open>
  The second pass, over the own keys:
  \<^verbatim>\<open>byProtocol[protocol].avgApy /= byProtocol[protocol].count\<close>.
\<close>

definition averages :: "(string \<rightharpoonup> rollup) \<Rightarrow> (string \<rightharpoonup> rollup)" where
  "averages groups =
     (\<lambda>k. case groups k of
            None \<Rightarrow> None
          | Some g \<Rightarrow> Some (g\<lparr>avgApy := num_div (avgApy g) (count g)\<rparr>))"

record stats =
  stats_count :: nat
  stats_avgApy :: jsnum
  stats_maxApy :: jsnum
  stats_totalTvl :: jsnum
  byProtocol :: "string \<rightharpoonup> rollup"
  byChain :: "string \<rightharpoonup> rollup"

text \<open>
  The memo. The fields \<^verbatim>\<open>count\<close>, \<^verbatim>\<open>avgApy\<close>, \<^verbatim>\<open>maxApy\<close> and \<^verbatim>\<open>totalTvl\<close> of its
  result carry the prefix \<open>stats_\<close> here, as a rollup has fields of the same names.
\<close>

definition useYieldData_stats :: "yield_opp list \<Rightarrow> stats" where
  "useYieldData_stats opps =
     (if length opps = 0 then
        \<lparr>stats_count = 0, stats_avgApy = Fin 0, stats_maxApy = Fin 0, stats_totalTvl = Fin 0,
         byProtocol = Map.empty, byChain = Map.empty\<rparr>
      else
        (let (by_protocol, by_chain) =
               foldl (\<lambda>(bp, bc) opp.
                        (rollup_step protocol_name bp opp, rollup_step chain_name bc opp))
                 (Map.empty, Map.empty) opps
         in \<lparr>stats_count = length opps,
             stats_avgApy =
               num_div (foldl (\<lambda>sum a. num_add sum (apy a)) (Fin 0) opps)
                 (length opps),
             stats_maxApy = Math_max (map apy opps),
             stats_totalTvl =
               foldl (\<lambda>sum a. num_add sum (parseFloat (tvl a))) (Fin 0) opps,
             byProtocol = averages by_protocol,
             byChain = averages by_chain\<rparr>))"

section \<open>Bounded buffers\<close>

lemma take_append_take: "take n (xs @ take n ys) = take n (xs @ ys)"
  by (simp add: min_def)

lemma priceUpdates_onmessage:
  "priceUpdates (onmessage m w) =
     (if declared_type m = Some (JStr ''price_update'')
      then take 100 (payload m # priceUpdates w) else priceUpdates w)"
  by (auto simp: onmessage_def declared_type_def payload_def split: option.splits sum.splits)

lemma arbitrageAlerts_onmessage:
  "arbitrageAlerts (onmessage m w) =
     (if declared_type m = Some (JStr ''arbitrage_alert'')
      then take 50 (payload m # arbitrageAlerts w) else arbitrageAlerts w)"
  by (auto simp: onmessage_def declared_type_def payload_def split: option.splits sum.splits)

lemma yieldUpdates_onmessage:
  "yieldUpdates (onmessage m w) =
     (if declared_type m = Some (JStr ''yield_update'')
      then take 50 (payload m # yieldUpdates w) else yieldUpdates w)"
  by (auto simp: onmessage_def declared_type_def payload_def split: option.splits sum.splits)

lemma inserted_Cons:
  "inserted ty (m # ms) =
     (if declared_type m = Some (JStr ty) then payload m # inserted ty ms else inserted ty ms)"
  by (simp add: inserted_def)

lemma take_rev_step: "take n (rev xs @ take n (p # b)) = take n (rev (p # xs) @ b)"
  using take_append_take [of n "rev xs" "p # b"] by simp

lemma priceUpdates_onmessages:
  "length (priceUpdates w) \<le> 100 \<Longrightarrow>
   priceUpdates (onmessages ms w) = take 100 (rev (inserted ''price_update'' ms) @ priceUpdates w)"
proof (induction ms arbitrary: w)
  case Nil
  then show ?case by (simp add: inserted_def)
next
  case (Cons m ms)
  have "length (priceUpdates (onmessage m w)) \<le> 100"
    using Cons.prems by (simp add: priceUpdates_onmessage)
  then have "priceUpdates (onmessages (m # ms) w) =
      take 100 (rev (inserted ''price_update'' ms) @ priceUpdates (onmessage m w))"
    using Cons.IH [of "onmessage m w"] by simp
  then show ?case
    by (simp only: priceUpdates_onmessage inserted_Cons take_rev_step split: if_split) simp
qed

lemma arbitrageAlerts_onmessages:
  "length (arbitrageAlerts w) \<le> 50 \<Longrightarrow>
   arbitrageAlerts (onmessages ms w) =
     take 50 (rev (inserted ''arbitrage_alert'' ms) @ arbitrageAlerts w)"
proof (induction ms arbitrary: w)
  case Nil
  then show ?case by (simp add: inserted_def)
next
  case (Cons m ms)
  have "length (arbitrageAlerts (onmessage m w)) \<le> 50"
    using Cons.prems by (simp add: arbitrageAlerts_onmessage)
  then have "arbitrageAlerts (onmessages (m # ms) w) =
      take 50 (rev (inserted ''arbitrage_alert'' ms) @ arbitrageAlerts (onmessage m w))"
    using Cons.IH [of "onmessage m w"] by simp
  then show ?case
    by (simp only: arbitrageAlerts_onmessage inserted_Cons take_rev_step split: if_split) simp
qed

lemma yieldUpdates_onmessages:
  "length (yieldUpdates w) \<le> 50 \<Longrightarrow>
   yieldUpdates (onmessages ms w) = take 50 (rev (inserted ''yield_update'' ms) @ yieldUpdates w)"
proof (induction ms arbitrary: w)
  case Nil
  then show ?case by (simp add: inserted_def)
next
  case (Cons m ms)
  have "length (yieldUpdates (onmessage m w)) \<le> 50"
    using Cons.prems by (simp add: yieldUpdates_onmessage)
  then have "yieldUpdates (onmessages (m # ms) w) =
      take 50 (rev (inserted ''yield_update'' ms) @ yieldUpdates (onmessage m w))"
    using Cons.IH [of "onmessage m w"] by simp
  then show ?case
    by (simp only: yieldUpdates_onmessage inserted_Cons take_rev_step split: if_split) simp
qed

lemma priceUpdates_initial:
  "priceUpdates (onmessages ms initial) = take 100 (rev (inserted ''price_update'' ms))"
  using priceUpdates_onmessages [of initial ms] by (simp add: initial_def)

lemma arbitrageAlerts_initial:
  "arbitrageAlerts (onmessages ms initial) = take 50 (rev (inserted ''arbitrage_alert'' ms))"
  using arbitrageAlerts_onmessages [of initial ms] by (simp add: initial_def)

lemma yieldUpdates_initial:
  "yieldUpdates (onmessages ms initial) = take 50 (rev (inserted ''yield_update'' ms))"
  using yieldUpdates_onmessages [of initial ms] by (simp add: initial_def)

lemma priceUpdates_evict:
  "declared_type m = Some (JStr ''price_update'') \<and> length (priceUpdates w) = 100 \<longrightarrow>
     priceUpdates (onmessage m w) = payload m # butlast (priceUpdates w)"
  by (simp add: priceUpdates_onmessage butlast_conv_take)

lemma arbitrageAlerts_evict:
  "declared_type m = Some (JStr ''arbitrage_alert'') \<and> length (arbitrageAlerts w) = 50 \<longrightarrow>
     arbitrageAlerts (onmessage m w) = payload m # butlast (arbitrageAlerts w)"
  by (simp add: arbitrageAlerts_onmessage butlast_conv_take)

lemma yieldUpdates_evict:
  "declared_type m = Some (JStr ''yield_update'') \<and> length (yieldUpdates w) = 50 \<longrightarrow>
     yieldUpdates (onmessage m w) = payload m # butlast (yieldUpdates w)"
  by (simp add: yieldUpdates_onmessage butlast_conv_take)

text \<open>
  Claim C4. Each of the three buffers is bounded: after any sequence of message events
  handled from the initial store, the price buffer holds the 100 most recently inserted
  payloads, newest first (all of them when fewer were inserted), and its size is the
  minimum of the number of insertions and 100; likewise the arbitrage and the yield
  buffer with capacity 50. An insertion into a full buffer puts the new payload in front
  and drops the last, oldest, element.
\<close>

theorem bounded_buffers:
  "(priceUpdates (onmessages ms initial) = take 100 (rev (inserted ''price_update'' ms))
    \<and> length (priceUpdates (onmessages ms initial))
        = min (length (inserted ''price_update'' ms)) 100)
   \<and> (arbitrageAlerts (onmessages ms initial) = take 50 (rev (inserted ''arbitrage_alert'' ms))
    \<and> length (arbitrageAlerts (onmessages ms initial))
        = min (length (inserted ''arbitrage_alert'' ms)) 50)
   \<and> (yieldUpdates (onmessages ms initial) = take 50 (rev (inserted ''yield_update'' ms))
    \<and> length (yieldUpdates (onmessages ms initial))
        = min (length (inserted ''yield_update'' ms)) 50)
   \<and> (declared_type mp = Some (JStr ''price_update'') \<and> length (priceUpdates w) = 100 \<longrightarrow>
        priceUpdates (onmessage mp w) = payload mp # butlast (priceUpdates w))
   \<and> (declared_type ma = Some (JStr ''arbitrage_alert'') \<and> length (arbitrageAlerts w) = 50 \<longrightarrow>
        arbitrageAlerts (onmessage ma w) = payload ma # butlast (arbitrageAlerts w))
   \<and> (declared_type my = Some (JStr ''yield_update'') \<and> length (yieldUpdates w) = 50 \<longrightarrow>
        yieldUpdates (onmessage my w) = payload my # butlast (yieldUpdates w))"
proof -
  have "length (priceUpdates (onmessages ms initial))
          = min (length (inserted ''price_update'' ms)) 100"
    by (simp only: priceUpdates_initial length_take length_rev)
  moreover have "length (arbitrageAlerts (onmessages ms initial))
          = min (length (inserted ''arbitrage_alert'' ms)) 50"
    by (simp only: arbitrageAlerts_initial length_take length_rev)
  moreover have "length (yieldUpdates (onmessages ms initial))
          = min (length (inserted ''yield_update'' ms)) 50"
    by (simp only: yieldUpdates_initial length_take length_rev)
  ultimately show ?thesis
    using priceUpdates_initial [of ms] arbitrageAlerts_initial [of ms] yieldUpdates_initial [of ms]
      priceUpdates_evict [of mp w] arbitrageAlerts_evict [of ma w] yieldUpdates_evict [of my w]
    by blast
qed

theorem bounded_buffers_witness:
  "(let w = initial\<lparr>priceUpdates := replicate 100 JNull, arbitrageAlerts := replicate 50 JNull,
                    yieldUpdates := replicate 50 JNull\<rparr>;
        mp = Some (JObj [(''type'', JStr ''price_update''), (''data'', JNum 1)]);
        ma = Some (JObj [(''type'', JStr ''arbitrage_alert''), (''data'', JNum 2)]);
        my = Some (JObj [(''type'', JStr ''yield_update''), (''data'', JNum 3)])
    in (declared_type mp = Some (JStr ''price_update'') \<and> length (priceUpdates w) = 100)
     \<and> (declared_type ma = Some (JStr ''arbitrage_alert'') \<and> length (arbitrageAlerts w) = 50)
     \<and> (declared_type my = Some (JStr ''yield_update'') \<and> length (yieldUpdates w) = 50)
     \<and> priceUpdates (onmessage mp w) = JNum 1 # replicate 99 JNull
     \<and> arbitrageAlerts (onmessage ma w) = JNum 2 # replicate 49 JNull
     \<and> yieldUpdates (onmessage my w) = JNum 3 # replicate 49 JNull
     \<and> priceUpdates (onmessages [mp, ma, mp] initial) = [JNum 1, JNum 1])"
  using bounded_buffers [of "[Some (JObj [(''type'', JStr ''price_update''), (''data'', JNum 1)]),
        Some (JObj [(''type'', JStr ''arbitrage_alert''), (''data'', JNum 2)]),
        Some (JObj [(''type'', JStr ''price_update''), (''data'', JNum 1)])]"
      "Some (JObj [(''type'', JStr ''price_update''), (''data'', JNum 1)])"
      "initial\<lparr>priceUpdates := replicate 100 JNull, arbitrageAlerts := replicate 50 JNull,
                    yieldUpdates := replicate 50 JNull\<rparr>"
      "Some (JObj [(''type'', JStr ''arbitrage_alert''), (''data'', JNum 2)])"
      "Some (JObj [(''type'', JStr ''yield_update''), (''data'', JNum 3)])"]
  by (simp add: declared_type_def payload_def payload_of_def inserted_def initial_def butlast_conv_take Let_def)
section \<open>Message router\<close>

lemma toasts_onmessage:
  "toasts (onmessage m w) =
     (if declared_type m = Some (JStr ''arbitrage_alert'')
      then toasts w @ high_profit_toast (payload m) else toasts w)"
  by (auto simp: onmessage_def declared_type_def payload_def split: option.splits sum.splits)

lemma unchanged_fields_onmessage:
  "ws (onmessage m w) = ws w" "connected (onmessage m w) = connected w"
  "subscriptions (onmessage m w) = subscriptions w" "sockets (onmessage m w) = sockets w"
  "sent (onmessage m w) = sent w" "timers (onmessage m w) = timers w"
  by (auto simp: onmessage_def split: option.splits sum.splits)

lemma greater_than_JNum: "greater_than (JNum p) c = Inr (c < p)"
  by (simp add: greater_than_def)

lemma toFixed_Inr: "(toFixed v = Inr p) = (v = JNum p)"
  by (cases v) auto

lemma high_profit_toast_number:
  "getprop d ''profit_percent'' = Inr (JNum p) \<Longrightarrow>
   high_profit_toast d =
     (case getprop d ''token_symbol'' of
        Inl e \<Rightarrow> []
      | Inr s \<Rightarrow> if 2 < p \<and> printable s then [Toast_arbitrage s p] else [])"
  by (simp add: high_profit_toast_def greater_than_JNum split: sum.splits bool.splits)

lemma high_profit_toast_other:
  "\<not> (\<exists>p. getprop d ''profit_percent'' = Inr (JNum p)) \<Longrightarrow> high_profit_toast d = []"
proof (cases "getprop d ''profit_percent''")
  case (Inl e)
  then show ?thesis by (simp add: high_profit_toast_def)
next
  case (Inr v)
  assume "\<not> (\<exists>p. getprop d ''profit_percent'' = Inr (JNum p))"
  then have "toFixed v = Inl TypeError"
    using Inr by (cases v) auto
  then show ?thesis
    using Inr by (simp add: high_profit_toast_def split: sum.splits bool.splits)
qed

lemma toast_shown_iff:
  "(high_profit_toast d = [Toast_arbitrage s p]) =
     (getprop d ''profit_percent'' = Inr (JNum p) \<and> 2 < p
      \<and> getprop d ''token_symbol'' = Inr s \<and> printable s)"
proof (cases "\<exists>q. getprop d ''profit_percent'' = Inr (JNum q)")
  case True
  then obtain q where q: "getprop d ''profit_percent'' = Inr (JNum q)" by blast
  show ?thesis
    unfolding high_profit_toast_number [OF q] using q by (auto split: sum.splits)
next
  case False
  then show ?thesis using high_profit_toast_other [OF False] by auto
qed

lemma toast_shown_or_none:
  "high_profit_toast d = [] \<or>
   (\<exists>s p. high_profit_toast d = [Toast_arbitrage s p])"
proof (cases "\<exists>q. getprop d ''profit_percent'' = Inr (JNum q)")
  case True
  then obtain q where q: "getprop d ''profit_percent'' = Inr (JNum q)" by blast
  show ?thesis
    unfolding high_profit_toast_number [OF q] by (auto split: sum.splits)
next
  case False
  then show ?thesis using high_profit_toast_other [OF False] by auto
qed

text \<open>
  Claim C8. What the handler does on an \<^verbatim>\<open>arbitrage_alert\<close> is given by the lemmas
  above: the payload is put in front of the arbitrage buffer, and the toast is shown
  exactly when \<^verbatim>\<open>profit_percent\<close> is a number above 2 and \<^verbatim>\<open>token_symbol\<close> converts to
  a string. The claim asks for the toast whenever \<^verbatim>\<open>profit_percent\<close> is above 2.0. For
  the payload \<^verbatim>\<open>{"token_symbol": "ETH", "profit_percent": "3.5"}\<close> the handler's own
  test \<^verbatim>\<open>profit_percent > 2.0\<close> holds and the payload is buffered, but no toast is
  shown: the string has no \<^verbatim>\<open>toFixed\<close>, and the TypeError is caught. The same payload
  with the number 3.5 shows the toast; with the number 3 and a token symbol that does
  not convert to a string it shows none, and with the number 2 it shows none.
\<close>

theorem string_profit_loses_toast:
  "greater_than (JStr ''3.5'') 2 = Inr True
   \<and> arbitrageAlerts
        (onmessage
           (Some (JObj [(''type'', JStr ''arbitrage_alert''),
                        (''data'', JObj [(''token_symbol'', JStr ''ETH''),
                                         (''profit_percent'', JStr ''3.5'')])]))
           initial)
      = [JObj [(''token_symbol'', JStr ''ETH''), (''profit_percent'', JStr ''3.5'')]]
   \<and> toasts
        (onmessage
           (Some (JObj [(''type'', JStr ''arbitrage_alert''),
                        (''data'', JObj [(''token_symbol'', JStr ''ETH''),
                                         (''profit_percent'', JStr ''3.5'')])]))
           initial)
      = []
   \<and> toasts
        (onmessage
           (Some (JObj [(''type'', JStr ''arbitrage_alert''),
                        (''data'', JObj [(''token_symbol'', JStr ''ETH''),
                                         (''profit_percent'', JNum (7 / 2))])]))
           initial)
      = [Toast_arbitrage (JStr ''ETH'') (7 / 2)]
   \<and> toasts
        (onmessage
           (Some (JObj [(''type'', JStr ''arbitrage_alert''),
                        (''data'', JObj [(''token_symbol'', JObj [(''toString'', JNull)]),
                                         (''profit_percent'', JNum 3)])]))
           initial)
      = []
   \<and> toasts
        (onmessage
           (Some (JObj [(''type'', JStr ''arbitrage_alert''),
                        (''data'', JObj [(''token_symbol'', JStr ''ETH''),
                                         (''profit_percent'', JNum 2)])]))
           initial)
      = []"
  by (simp add: onmessage_def payload_of_def high_profit_toast_def greater_than_def
      string_to_number_def trim_def decimal_literal_def is_space_def is_digit_def
      digits_value_def exponent_part_def initial_def Let_def)

text \<open>
  Claim C9. Handling a message changes at most the buffer of the type it declares: the
  socket handle, the \<^verbatim>\<open>connected\<close> flag, the subscription set, the sockets, the sent
  requests and the timers never change, and each buffer stays as it is unless the
  message declares that buffer's type.
\<close>

theorem onmessage_frame:
  "(ws (onmessage m w) = ws w \<and> connected (onmessage m w) = connected w
    \<and> subscriptions (onmessage m w) = subscriptions w \<and> sockets (onmessage m w) = sockets w
    \<and> sent (onmessage m w) = sent w \<and> timers (onmessage m w) = timers w)
   \<and> (declared_type m \<noteq> Some (JStr ''price_update'') \<longrightarrow>
        priceUpdates (onmessage m w) = priceUpdates w)
   \<and> (declared_type m \<noteq> Some (JStr ''arbitrage_alert'') \<longrightarrow>
        arbitrageAlerts (onmessage m w) = arbitrageAlerts w)
   \<and> (declared_type m \<noteq> Some (JStr ''yield_update'') \<longrightarrow>
        yieldUpdates (onmessage m w) = yieldUpdates w)"
  by (simp add: unchanged_fields_onmessage priceUpdates_onmessage arbitrageAlerts_onmessage
      yieldUpdates_onmessage)

theorem onmessage_frame_witness:
  "(let m = Some (JObj [(''type'', JStr ''pong'')]);
        w = initial\<lparr>connected := True, priceUpdates := [JNum 1], arbitrageAlerts := [JNum 2],
                     yieldUpdates := [JNum 3], subscriptions := [''prices'']\<rparr>
    in declared_type m \<noteq> Some (JStr ''price_update'')
     \<and> declared_type m \<noteq> Some (JStr ''arbitrage_alert'')
     \<and> declared_type m \<noteq> Some (JStr ''yield_update'')
     \<and> priceUpdates (onmessage m w) = [JNum 1]
     \<and> arbitrageAlerts (onmessage m w) = [JNum 2]
     \<and> yieldUpdates (onmessage m w) = [JNum 3]
     \<and> subscriptions (onmessage m w) = [''prices'']
     \<and> connected (onmessage m w))"
  using onmessage_frame
    [of "Some (JObj [(''type'', JStr ''pong'')])"
        "initial\<lparr>connected := True, priceUpdates := [JNum 1], arbitrageAlerts := [JNum 2],
                     yieldUpdates := [JNum 3], subscriptions := [''prices'']\<rparr>"]
  by (simp add: declared_type_def initial_def Let_def)
section \<open>Subscriptions\<close>

lemma foldl_add_set:
  "set (foldl (\<lambda>s c. if c \<in> set s then s else s @ [c]) acc xs) = set acc \<union> set xs"
  by (induction xs arbitrary: acc) auto

lemma foldl_add_distinct:
  "distinct acc \<Longrightarrow> distinct (foldl (\<lambda>s c. if c \<in> set s then s else s @ [c]) acc xs)"
  by (induction xs arbitrary: acc) auto

lemma set_new_Set: "set (new_Set xs) = set xs"
  by (simp add: new_Set_def foldl_add_set)

lemma distinct_new_Set: "distinct (new_Set xs)"
  by (simp add: new_Set_def foldl_add_distinct)

lemma foldl_removeAll_set: "set (foldl (\<lambda>s ch. removeAll ch s) s chs) = set s - set chs"
  by (induction chs arbitrary: s) auto

lemma foldl_removeAll_distinct:
  "distinct s \<Longrightarrow> distinct (foldl (\<lambda>s ch. removeAll ch s) s chs)"
  by (induction chs arbitrary: s) (auto simp: distinct_removeAll)

lemma subscribe_open:
  "ws w = Some i \<and> socket_open w i \<longrightarrow>
     set (subscriptions (subscribe chs w)) = set (subscriptions w) \<union> set chs
     \<and> distinct (subscriptions (subscribe chs w))
     \<and> sent (subscribe chs w) = sent w @ [(i, Subscribe chs)]"
  by (simp add: subscribe_def ws_send_def set_new_Set distinct_new_Set)

lemma unsubscribe_open:
  "ws w = Some i \<and> socket_open w i \<longrightarrow>
     set (subscriptions (unsubscribe chs w)) = set (subscriptions w) - set chs
     \<and> distinct (subscriptions (unsubscribe chs w))
     \<and> sent (unsubscribe chs w) = sent w @ [(i, Unsubscribe chs)]"
  by (simp add: unsubscribe_def ws_send_def foldl_removeAll_set foldl_removeAll_distinct
      set_new_Set distinct_new_Set)

lemma subscribe_not_open:
  "\<not> (\<exists>i. ws w = Some i \<and> socket_open w i) \<longrightarrow> subscribe chs w = w \<and> unsubscribe chs w = w"
  by (auto simp: subscribe_def unsubscribe_def split: option.splits)

lemma open_event_replay:
  "i < length (sockets w) \<and> sockets w ! i = CONNECTING \<longrightarrow>
     connected (step (Open_event i) w)
     \<and> subscriptions (step (Open_event i) w) = subscriptions w
     \<and> sent (step (Open_event i) w) =
         sent w @ (if subscriptions w = [] then [] else [(i, Subscribe (subscriptions w))])"
  by (simp add: step_def onopen_def ws_send_def socket_open_def Let_def)

lemma replay_example:
  "connected (run [Call_subscribe [''prices''], Call_connect, Open_event 0] initial)
   \<and> subscriptions (run [Call_subscribe [''prices''], Call_connect, Open_event 0] initial) = []
   \<and> sent (run [Call_subscribe [''prices''], Call_connect, Open_event 0] initial) = []"
  by (simp add: step_def subscribe_def connect_def onopen_def initial_def Let_def)

text \<open>
  Claim C3 as stated fails: \<^verbatim>\<open>subscribe\<close> called while the store holds no open socket
  leaves the subscription set empty, so nothing is replayed when the connection opens.
\<close>

theorem subscribe_disconnected_counterexample:
  "subscriptions (subscribe [''prices''] initial) = []
   \<and> connected (run [Call_subscribe [''prices''], Call_connect, Open_event 0] initial)
   \<and> sent (run [Call_subscribe [''prices''], Call_connect, Open_event 0] initial) = []"
  by (simp add: step_def subscribe_def connect_def onopen_def initial_def Let_def)

text \<open>
  Claim C3, amended. \<^verbatim>\<open>subscribe\<close> and \<^verbatim>\<open>unsubscribe\<close> update the subscription set
  (union, difference) and send their request when the store holds an open socket, and
  change nothing otherwise. When a connecting socket opens, a non-empty subscription set
  is replayed as exactly one subscribe request on that socket and an empty one sends
  nothing. Subscribing to \<^verbatim>\<open>["prices"]\<close> on the initial store and then connecting sends
  no request.
\<close>

theorem subscribe_only_when_open:
  "(ws w = Some i \<and> socket_open w i \<longrightarrow>
      (set (subscriptions (subscribe chs w)) = set (subscriptions w) \<union> set chs
       \<and> distinct (subscriptions (subscribe chs w))
       \<and> sent (subscribe chs w) = sent w @ [(i, Subscribe chs)])
      \<and> (set (subscriptions (unsubscribe chs w)) = set (subscriptions w) - set chs
       \<and> distinct (subscriptions (unsubscribe chs w))
       \<and> sent (unsubscribe chs w) = sent w @ [(i, Unsubscribe chs)]))
   \<and> (\<not> (\<exists>i. ws w' = Some i \<and> socket_open w' i) \<longrightarrow>
        subscribe chs w' = w' \<and> unsubscribe chs w' = w')
   \<and> (j < length (sockets v) \<and> sockets v ! j = CONNECTING \<longrightarrow>
        connected (step (Open_event j) v)
        \<and> subscriptions (step (Open_event j) v) = subscriptions v
        \<and> sent (step (Open_event j) v) =
            sent v @ (if subscriptions v = [] then [] else [(j, Subscribe (subscriptions v))]))
   \<and> (connected (run [Call_subscribe [''prices''], Call_connect, Open_event 0] initial)
       \<and> subscriptions (run [Call_subscribe [''prices''], Call_connect, Open_event 0] initial) = []
       \<and> sent (run [Call_subscribe [''prices''], Call_connect, Open_event 0] initial) = [])"
  using subscribe_open [of w i chs] unsubscribe_open [of w i chs] subscribe_not_open [of w' chs]
    open_event_replay [of j v] replay_example
  by blast

theorem subscribe_only_when_open_witness:
  "(let w = run [Call_connect, Open_event 0] initial;
        v = run [Call_connect, Open_event 0, Call_subscribe [''prices''], Close_event 0, Timer_event 0] initial
    in (ws w = Some 0 \<and> socket_open w 0)
     \<and> subscriptions (subscribe [''prices'', ''yield'', ''prices''] w) = [''prices'', ''yield'']
     \<and> sent (subscribe [''prices'', ''yield'', ''prices''] w) = [(0, Subscribe [''prices'', ''yield'', ''prices''])]
     \<and> \<not> (\<exists>i. ws initial = Some i \<and> socket_open initial i)
     \<and> subscribe [''prices''] initial = initial
     \<and> (1 < length (sockets v) \<and> sockets v ! 1 = CONNECTING)
     \<and> sent (step (Open_event 1) v) = [(0, Subscribe [''prices'']), (1, Subscribe [''prices''])])"
  using subscribe_only_when_open
    [of "run [Call_connect, Open_event 0] initial" 0 "[''prices'', ''yield'', ''prices'']" initial 1
      "run [Call_connect, Open_event 0, Call_subscribe [''prices''], Close_event 0, Timer_event 0] initial"]
  by (simp add: step_def connect_def onopen_def onclose_def subscribe_def ws_send_def socket_open_def
      new_Set_def initial_def Let_def)

section \<open>Disconnecting and reconnecting\<close>

lemma disconnect_closes:
  "ws w = Some i \<and> i < length (sockets w) \<and> (sockets w ! i = OPEN \<or> sockets w ! i = CONNECTING) \<longrightarrow>
     sockets (disconnect w) = (sockets w)[i := CLOSING]
     \<and> ws (disconnect w) = None \<and> \<not> connected (disconnect w)"
  by (auto simp: disconnect_def ws_close_def)

lemma disconnect_timers: "timers (disconnect w) = timers w"
  by (simp add: disconnect_def ws_close_def split: option.splits)

lemma close_event_schedules:
  "i < length (sockets w) \<and> sockets w ! i \<noteq> CLOSED \<longrightarrow>
     timers (step (Close_event i) w) = timers w @ [5000]
     \<and> ws (step (Close_event i) w) = None \<and> \<not> connected (step (Close_event i) w)"
  by (simp add: step_def onclose_def)

lemma timer_event_connects:
  "k < length (timers w) \<longrightarrow>
     sockets (step (Timer_event k) w) = sockets w @ [CONNECTING]
     \<and> ws (step (Timer_event k) w) = Some (length (sockets w))
     \<and> timers (step (Timer_event k) w) = take k (timers w) @ drop (Suc k) (timers w)"
  by (simp add: step_def connect_def)

text \<open>
  Claim C2 as stated fails. \<^verbatim>\<open>disconnect\<close> calls \<^verbatim>\<open>ws.close()\<close> on a socket whose
  \<^verbatim>\<open>onclose\<close> handler is still attached: when the browser delivers the close event the
  handler schedules the reconnect. And once a socket has closed the store holds no
  socket, so a later \<^verbatim>\<open>disconnect\<close> does nothing: the pending timer stays, and when it
  runs a new socket is created.
\<close>

theorem disconnect_reconnects_counterexample:
  "timers (run [Call_connect, Open_event 0, Call_disconnect] initial) = []
   \<and> sockets (run [Call_connect, Open_event 0, Call_disconnect] initial) = [CLOSING]
   \<and> timers (run [Call_connect, Open_event 0, Call_disconnect, Close_event 0] initial) = [5000]
   \<and> timers (run [Call_connect, Open_event 0, Close_event 0, Call_disconnect] initial) = [5000]
   \<and> sockets (run [Call_connect, Open_event 0, Close_event 0, Call_disconnect, Timer_event 0] initial)
       = [CLOSED, CONNECTING]"
  by (simp add: step_def connect_def onopen_def onclose_def disconnect_def ws_close_def
      initial_def Let_def)

text \<open>
  Claim C2, amended. \<^verbatim>\<open>disconnect\<close> closes the socket the store holds and sets the
  store to disconnected; it neither schedules nor cancels a timer. Every close event of a
  socket, whether or not \<^verbatim>\<open>disconnect\<close> caused it, schedules exactly one reconnect
  after 5000 ms. A pending timer that runs removes itself and makes one connection
  attempt.
\<close>

theorem reconnect_schedule:
  "(ws w = Some i \<and> i < length (sockets w) \<and> (sockets w ! i = OPEN \<or> sockets w ! i = CONNECTING) \<longrightarrow>
      sockets (disconnect w) = (sockets w)[i := CLOSING]
      \<and> ws (disconnect w) = None \<and> \<not> connected (disconnect w))
   \<and> timers (disconnect w) = timers w
   \<and> (j < length (sockets v) \<and> sockets v ! j \<noteq> CLOSED \<longrightarrow>
        timers (step (Close_event j) v) = timers v @ [5000]
        \<and> ws (step (Close_event j) v) = None \<and> \<not> connected (step (Close_event j) v))
   \<and> (k < length (timers u) \<longrightarrow>
        sockets (step (Timer_event k) u) = sockets u @ [CONNECTING]
        \<and> ws (step (Timer_event k) u) = Some (length (sockets u))
        \<and> timers (step (Timer_event k) u) = take k (timers u) @ drop (Suc k) (timers u))"
  using disconnect_closes [of w i] disconnect_timers [of w] close_event_schedules [of j v]
    timer_event_connects [of k u]
  by blast

theorem reconnect_schedule_witness:
  "(let w = run [Call_connect, Open_event 0] initial;
        v = run [Call_connect, Open_event 0, Call_disconnect] initial;
        u = run [Call_connect, Open_event 0, Call_disconnect, Close_event 0, Call_disconnect] initial
    in (ws w = Some 0 \<and> 0 < length (sockets w) \<and> (sockets w ! 0 = OPEN \<or> sockets w ! 0 = CONNECTING))
     \<and> sockets (disconnect w) = [CLOSING] \<and> ws (disconnect w) = None \<and> \<not> connected (disconnect w)
     \<and> timers (disconnect w) = []
     \<and> (0 < length (sockets v) \<and> sockets v ! 0 \<noteq> CLOSED)
     \<and> timers (step (Close_event 0) v) = [5000]
     \<and> 0 < length (timers u)
     \<and> sockets (step (Timer_event 0) u) = [CLOSED, CONNECTING]
     \<and> timers (step (Timer_event 0) u) = [])"
  using reconnect_schedule
    [of "run [Call_connect, Open_event 0] initial" 0 0
        "run [Call_connect, Open_event 0, Call_disconnect] initial" 0
        "run [Call_connect, Open_event 0, Call_disconnect, Close_event 0, Call_disconnect] initial"]
  by (simp add: step_def connect_def onopen_def onclose_def disconnect_def ws_close_def
      initial_def Let_def)

section \<open>Reconciliation\<close>

lemma insert_sorted_by_profit:
  "insert_sorted by_profit x ys = insort_key (\<lambda>r. - profit_percent r) x ys"
  by (induction ys) (auto simp: by_profit_def)

lemma array_sort_by_profit: "array_sort by_profit xs = sort_key (\<lambda>r. - profit_percent r) xs"
  by (induction xs) (simp_all add: array_sort_def sort_key_def insert_sorted_by_profit)

lemma unique_reduce_acc:
  "set seen = opportunity_id ` set acc \<Longrightarrow>
   foldl (\<lambda>acc opp. if find (\<lambda>a. opportunity_id a = opportunity_id opp) acc = None
                      then acc @ [opp] else acc) acc rs
     = acc @ keep_unseen seen rs"
proof (induction rs arbitrary: acc seen)
  case Nil
  then show ?case by simp
next
  case (Cons r rs)
  let ?step = "\<lambda>acc opp. if find (\<lambda>a. opportunity_id a = opportunity_id opp) acc = None
                      then acc @ [opp] else acc"
  have known: "(find (\<lambda>a. opportunity_id a = opportunity_id r) acc = None)
                 = (opportunity_id r \<notin> set seen)"
    unfolding find_None_iff Cons.prems image_iff by metis
  show ?case
  proof (cases "opportunity_id r \<in> set seen")
    case True
    then have "?step acc r = acc"
      using known by auto
    then have "foldl ?step acc (r # rs) = foldl ?step acc rs"
      by simp
    then show ?thesis
      using Cons.IH [OF Cons.prems] True by simp
  next
    case False
    then have "?step acc r = acc @ [r]"
      using known by auto
    then have "foldl ?step acc (r # rs) = foldl ?step (acc @ [r]) rs"
      by simp
    moreover have "set (opportunity_id r # seen) = opportunity_id ` set (acc @ [r])"
      using Cons.prems by auto
    ultimately show ?thesis
      using Cons.IH [of "opportunity_id r # seen" "acc @ [r]"] False by simp
  qed
qed

lemma unique_reduce_keep_unseen: "unique_reduce merged = keep_unseen [] merged"
  using unique_reduce_acc [of "[]" "[]" merged] by (simp add: unique_reduce_def)

lemma opportunities_spec: "opportunities s p = reconcile_spec (wsOpps s) (apiOpps p)"
  by (simp add: opportunities_def reconcile_spec_def unique_reduce_keep_unseen
      array_sort_by_profit Let_def)

lemma keep_unseen_ids:
  "opportunity_id ` set (keep_unseen seen rs) = opportunity_id ` set rs - set seen"
  by (induction seen rs rule: keep_unseen.induct) auto

lemma keep_unseen_distinct: "distinct (map opportunity_id (keep_unseen seen rs))"
proof (induction seen rs rule: keep_unseen.induct)
  case (1 seen)
  then show ?case by simp
next
  case (2 seen r rs)
  then show ?case using keep_unseen_ids [of "opportunity_id r # seen" rs] by auto
qed

lemma keep_unseen_find:
  "i \<notin> set seen \<Longrightarrow>
   find (\<lambda>a. opportunity_id a = i) (keep_unseen seen rs) = find (\<lambda>a. opportunity_id a = i) rs"
  by (induction seen rs rule: keep_unseen.induct) auto

lemma find_distinct_keys:
  assumes "distinct (map k xs)" "distinct (map k ys)" "set xs = set ys"
  shows "find (\<lambda>a. k a = i) xs = find (\<lambda>a. k a = i) ys"
proof (cases "find (\<lambda>a. k a = i) xs")
  case None
  then have "find (\<lambda>a. k a = i) ys = None"
    using assms(3) by (simp add: find_None_iff)
  then show ?thesis using None by simp
next
  case (Some x)
  then have x: "x \<in> set xs" "k x = i"
    by (auto simp: find_Some_iff)
  obtain y where y: "find (\<lambda>a. k a = i) ys = Some y"
    using x assms(3) by (cases "find (\<lambda>a. k a = i) ys") (auto simp: find_None_iff)
  then have "y \<in> set ys" "k y = i"
    by (auto simp: find_Some_iff)
  then have "y = x"
    using x assms(1,3) by (auto simp: distinct_map inj_on_def)
  then show ?thesis using Some y by simp
qed

lemma keep_unseen_id:
  "distinct (map opportunity_id rs) \<Longrightarrow> set seen \<inter> opportunity_id ` set rs = {} \<Longrightarrow>
   keep_unseen seen rs = rs"
  by (induction seen rs rule: keep_unseen.induct) auto

lemma wsOpps_Object: "wsOpps (map Object rs) = rs"
  by (induction rs) (simp_all add: wsOpps_def List.map_filter_simps)

text \<open>
  Claim C1. For all stream alerts \<open>s\<close> and every polled result \<open>p\<close>, the hook's merge is
  the reconciliation of the specification applied to the decoded stream records and the
  polled records: stream before polled, the first record of each identity kept, sorted
  descending by \<^verbatim>\<open>profit_percent\<close> with a stable sort. So no identity occurs twice in
  the result, the record the result holds for an identity is the first record with that
  identity in the concatenation (a stream record shadows a polled one), and the profits
  descend. For the stream \<^verbatim>\<open>[{id:1, profit_percent:5}]\<close> and the polled records
  \<^verbatim>\<open>[{id:1, profit_percent:1}, {id:2, profit_percent:9}]\<close> the result is
  \<^verbatim>\<open>[{id:2, profit_percent:9}, {id:1, profit_percent:5}]\<close>.
\<close>

theorem reconcile_correct:
  "opportunities s p = reconcile_spec (wsOpps s) (apiOpps p)
   \<and> distinct (map opportunity_id (opportunities s p))
   \<and> (\<forall>i. find (\<lambda>a. opportunity_id a = i) (opportunities s p)
          = find (\<lambda>a. opportunity_id a = i) (wsOpps s @ apiOpps p))
   \<and> sorted_wrt (\<lambda>a b. profit_percent a \<ge> profit_percent b) (opportunities s p)
   \<and> opportunities [Object \<lparr>opportunity_id = 1::nat, profit_percent = 5\<rparr>]
        (Some [\<lparr>opportunity_id = 1, profit_percent = 1\<rparr>, \<lparr>opportunity_id = 2, profit_percent = 9\<rparr>])
      = [\<lparr>opportunity_id = 2, profit_percent = 9\<rparr>, \<lparr>opportunity_id = 1, profit_percent = 5\<rparr>]"
proof -
  let ?m = "wsOpps s @ apiOpps p"
  let ?u = "keep_unseen [] ?m"
  let ?f = "\<lambda>r::('a, 'b) opp_scheme. - profit_percent r"
  have eq: "opportunities s p = sort_key ?f ?u"
    by (simp add: opportunities_spec reconcile_spec_def)
  have d: "distinct (map opportunity_id (sort_key ?f ?u))"
    using keep_unseen_distinct [of "[]" ?m] by (simp add: distinct_map)
  have f: "find (\<lambda>a. opportunity_id a = i) (sort_key ?f ?u) = find (\<lambda>a. opportunity_id a = i) ?m" for i
    using find_distinct_keys [OF d keep_unseen_distinct [of "[]" ?m], of i]
      keep_unseen_find [of i "[]" ?m] by simp
  have "sorted (map ?f (sort_key ?f ?u))"
    by (rule sorted_sort_key)
  then have s: "sorted_wrt (\<lambda>a b. profit_percent a \<ge> profit_percent b) (sort_key ?f ?u)"
    by (simp add: sorted_map)
  have ex: "opportunities [Object \<lparr>opportunity_id = 1::nat, profit_percent = 5\<rparr>]
        (Some [\<lparr>opportunity_id = 1, profit_percent = 1\<rparr>, \<lparr>opportunity_id = 2, profit_percent = 9\<rparr>])
      = [\<lparr>opportunity_id = 2, profit_percent = 9\<rparr>, \<lparr>opportunity_id = 1, profit_percent = 5\<rparr>]"
    by (simp add: opportunities_def wsOpps_def apiOpps_def unique_reduce_def array_sort_def
        by_profit_def List.map_filter_simps Let_def)
  show ?thesis
    using opportunities_spec [of s p] d f s ex unfolding eq by blast
qed

text \<open>
  Claim C6. Reconciliation is idempotent: merging the result of a merge, taken as the
  stream, with an empty polled sequence gives the same result.
\<close>

theorem reconcile_idempotent:
  "opportunities (map Object (opportunities s p)) (Some []) = opportunities s p"
proof -
  let ?m = "wsOpps s @ apiOpps p"
  let ?f = "\<lambda>r::('a, 'b) opp_scheme. - profit_percent r"
  let ?r = "sort_key ?f (keep_unseen [] ?m)"
  have eq: "opportunities s p = ?r"
    by (simp add: opportunities_spec reconcile_spec_def)
  have d: "distinct (map opportunity_id ?r)"
    using keep_unseen_distinct [of "[]" ?m] by (simp add: distinct_map)
  have "opportunities (map Object ?r) (Some []) = sort_key ?f (keep_unseen [] ?r)"
    by (simp add: opportunities_spec reconcile_spec_def wsOpps_Object apiOpps_def)
  also have "\<dots> = sort_key ?f ?r"
    using keep_unseen_id [OF d, of "[]"] by simp
  also have "\<dots> = ?r"
    by (rule sort_key_id_if_sorted) (rule sorted_sort_key)
  finally show ?thesis unfolding eq .
qed

subsection \<open>The panel's copy of the merge\<close>

lemma panel_wsOpps_ok:
  "Text None \<notin> set alerts \<Longrightarrow> panel_wsOpps alerts = Inr (wsOpps alerts)"
  by (induction alerts rule: panel_wsOpps.induct)
     (simp_all add: wsOpps_def List.map_filter_simps)

lemma panel_agrees_when_parsable:
  "Text None \<notin> set alerts \<Longrightarrow> allOpportunities alerts data = Inr (opportunities alerts data)"
  by (simp add: allOpportunities_def opportunities_def panel_wsOpps_ok)

text \<open>
  Claim C10. The two merges agree on alerts that all parse (lemma
  \<open>panel_agrees_when_parsable\<close>), but not on a string that is not valid JSON: the hook
  drops it, the panel's memo ends with the SyntaxError.
\<close>

theorem panel_throws_where_hook_filters:
  "opportunities [Text None :: nat opp alert] (Some []) = []
   \<and> allOpportunities [Text None :: nat opp alert] (Some []) = Inl SyntaxError"
  by (simp add: opportunities_def allOpportunities_def wsOpps_def apiOpps_def unique_reduce_def
      array_sort_def List.map_filter_simps Let_def)

section \<open>Yield statistics\<close>

lemma foldl_pair:
  "foldl (\<lambda>(bp, bc) opp. (f bp opp, g bc opp)) (a, b) xs = (foldl f a xs, foldl g b xs)"
  by (induction xs arbitrary: a b) simp_all

lemma rollup_step_apply:
  "rollup_step key gs x k =
     (if k = key x \<and> key x \<notin> set Object_prototype_names
      then Some (case gs k of
                   None \<Rightarrow> \<lparr>count = 1, totalTvl = num_add (Fin 0) (parseFloat (tvl x)),
                             avgApy = num_add (Fin 0) (apy x)\<rparr>
                 | Some g \<Rightarrow> g\<lparr>count := count g + 1,
                               totalTvl := num_add (totalTvl g) (parseFloat (tvl x)),
                               avgApy := num_add (avgApy g) (apy x)\<rparr>)
      else gs k)"
  by (auto simp: rollup_step_def Let_def split: option.splits)

lemma rollup_fold:
  "foldl (rollup_step key) Map.empty opps k =
     (if k \<in> set Object_prototype_names \<or> filter (\<lambda>r. key r = k) opps = [] then None
      else Some \<lparr>count = length (filter (\<lambda>r. key r = k) opps),
                 totalTvl = sum_num (map (\<lambda>r. parseFloat (tvl r)) (filter (\<lambda>r. key r = k) opps)),
                 avgApy = sum_num (map apy (filter (\<lambda>r. key r = k) opps))\<rparr>)"
proof (induction opps rule: rev_induct)
  case Nil
  then show ?case by simp
next
  case (snoc x xs)
  show ?case
  proof (cases "k = key x \<and> key x \<notin> set Object_prototype_names")
    case False
    then show ?thesis using snoc by (auto simp: rollup_step_apply)
  next
    case True
    then show ?thesis using snoc by (simp add: rollup_step_apply sum_num_def)
  qed
qed

lemma byProtocol_stats:
  "byProtocol (useYieldData_stats opps) = averages (foldl (rollup_step protocol_name) Map.empty opps)"
  by (simp add: useYieldData_stats_def foldl_pair averages_def)

lemma byChain_stats:
  "byChain (useYieldData_stats opps) = averages (foldl (rollup_step chain_name) Map.empty opps)"
  by (simp add: useYieldData_stats_def foldl_pair averages_def)

lemma rollup_of_key:
  "averages (foldl (rollup_step key) Map.empty opps) k =
     (if k \<in> set Object_prototype_names \<or> filter (\<lambda>r. key r = k) opps = [] then None
      else Some \<lparr>count = length (filter (\<lambda>r. key r = k) opps),
                 totalTvl = sum_num (map (\<lambda>r. parseFloat (tvl r)) (filter (\<lambda>r. key r = k) opps)),
                 avgApy = num_div (sum_num (map apy (filter (\<lambda>r. key r = k) opps)))
                            (length (filter (\<lambda>r. key r = k) opps))\<rparr>)"
  by (simp add: averages_def rollup_fold)

lemma stats_empty:
  "useYieldData_stats [] =
     \<lparr>stats_count = 0, stats_avgApy = Fin 0, stats_maxApy = Fin 0, stats_totalTvl = Fin 0,
      byProtocol = Map.empty, byChain = Map.empty\<rparr>"
  by (simp add: useYieldData_stats_def)


lemma rollups_of_own_keys:
  "byProtocol (useYieldData_stats opps) p =
     (if p \<in> set Object_prototype_names \<or> filter (\<lambda>r. protocol_name r = p) opps = [] then None
      else Some \<lparr>count = length (filter (\<lambda>r. protocol_name r = p) opps),
                 totalTvl = sum_num (map (\<lambda>r. parseFloat (tvl r))
                                      (filter (\<lambda>r. protocol_name r = p) opps)),
                 avgApy = num_div (sum_num (map apy (filter (\<lambda>r. protocol_name r = p) opps)))
                            (length (filter (\<lambda>r. protocol_name r = p) opps))\<rparr>)"
  "byChain (useYieldData_stats opps) c =
     (if c \<in> set Object_prototype_names \<or> filter (\<lambda>r. chain_name r = c) opps = [] then None
      else Some \<lparr>count = length (filter (\<lambda>r. chain_name r = c) opps),
                 totalTvl = sum_num (map (\<lambda>r. parseFloat (tvl r))
                                      (filter (\<lambda>r. chain_name r = c) opps)),
                 avgApy = num_div (sum_num (map apy (filter (\<lambda>r. chain_name r = c) opps)))
                            (length (filter (\<lambda>r. chain_name r = c) opps))\<rparr>)"
  unfolding byProtocol_stats byChain_stats by (rule rollup_of_key)+

lemma stats_example:
  "byProtocol (useYieldData_stats
      [\<lparr>protocol_name = ''A'', chain_name = c1, tvl = Number (Fin 100), apy = Fin 10\<rparr>,
       \<lparr>protocol_name = ''A'', chain_name = c2, tvl = Number (Fin 300), apy = Fin 20\<rparr>]) ''A''
    = Some \<lparr>count = 2, totalTvl = Fin 400, avgApy = Fin 15\<rparr>"
  unfolding rollups_of_own_keys by (simp add: sum_num_def Object_prototype_names_def)

text \<open>
  Claim C7. For every key that is not the name of an inherited property the memo
  computes the rollup the claim describes (lemma \<open>rollups_of_own_keys\<close>), and the
  claim's example holds (lemma \<open>stats_example\<close>). The claim asks for a rollup of every
  group. A record whose \<^verbatim>\<open>protocol_name\<close> is \<^verbatim>\<open>constructor\<close> is counted in the overall
  count and in the rollup of its chain, but the memo's result has no rollup for its
  protocol, where a protocol of another name gets one. Likewise for the protocol
  \<^verbatim>\<open>toString\<close> and the chain \<^verbatim>\<open>__proto__\<close>.
\<close>

theorem inherited_key_gets_no_rollup:
  "stats_count (useYieldData_stats
       [\<lparr>protocol_name = ''constructor'', chain_name = ''eth'', tvl = Number (Fin 100), apy = Fin 10\<rparr>])
     = 1
   \<and> byProtocol (useYieldData_stats
       [\<lparr>protocol_name = ''constructor'', chain_name = ''eth'', tvl = Number (Fin 100), apy = Fin 10\<rparr>])
     = Map.empty
   \<and> byChain (useYieldData_stats
       [\<lparr>protocol_name = ''constructor'', chain_name = ''eth'', tvl = Number (Fin 100), apy = Fin 10\<rparr>])
       ''eth''
     = Some \<lparr>count = 1, totalTvl = Fin 100, avgApy = Fin 10\<rparr>
   \<and> byProtocol (useYieldData_stats
       [\<lparr>protocol_name = ''Aave'', chain_name = ''eth'', tvl = Number (Fin 100), apy = Fin 10\<rparr>])
       ''Aave''
     = Some \<lparr>count = 1, totalTvl = Fin 100, avgApy = Fin 10\<rparr>
   \<and> byProtocol (useYieldData_stats
       [\<lparr>protocol_name = ''toString'', chain_name = ''__proto__'', tvl = Number (Fin 100), apy = Fin 10\<rparr>])
     = Map.empty
   \<and> byChain (useYieldData_stats
       [\<lparr>protocol_name = ''toString'', chain_name = ''__proto__'', tvl = Number (Fin 100), apy = Fin 10\<rparr>])
     = Map.empty"
  by (simp add: useYieldData_stats_def rollup_step_def averages_def Object_prototype_names_def
      Let_def)

subsection \<open>Records whose \<^verbatim>\<open>tvl\<close> does not parse\<close>













end
